theory Spec2Isabelle
  imports Main
begin

section \<open>JSON values and records\<close>

text \<open>
  The template's blobs and the requests' payloads are JSON. A record (a JavaScript
  object) is an association list from property names to values; reading a property that
  is absent gives \<open>Undefined\<close>, as \<open>entry[key]\<close> does.
\<close>

datatype jv =
    Undefined
  | Null
  | JBool bool
  | JNum int
  | JStr string
  | JArr "jv list"
  | JObj "(string \<times> jv) list"

type_synonym item = "(string \<times> jv) list"

definition get_prop :: "item \<Rightarrow> string \<Rightarrow> jv" where
  "get_prop entry k = (case map_of entry k of None \<Rightarrow> Undefined | Some v \<Rightarrow> v)"

definition startsWith :: "'a list \<Rightarrow> 'a list \<Rightarrow> bool" where
  "startsWith s p = (take (length p) s = p)"

section \<open>The template: collections, fields, relations, content\<close>

record coll_meta =
  m_group :: "string option"
  m_singleton :: bool

record collection =
  c_collection :: string
  c_schema :: "item option"
  c_meta :: "coll_meta option"

record field_schema =
  is_primary_key :: bool

record field =
  f_collection :: string
  f_field :: string
  f_schema :: "field_schema option"

record rel_meta =
  m_id :: jv
  m_rest :: item

record relation =
  r_collection :: string
  r_field :: string
  r_related_collection :: "string option"
  r_meta :: "rel_meta option"

text \<open>
  The content blob of a collection is what \<open>readItems\<close> returned at extraction: an array of
  records for a regular collection, one record for a singleton.
\<close>

datatype blob = Rows "item list" | Single item

text \<open>
  Modelled from the spec: \<open>readFile\<close> (utils/read-file.js is not among the sources) is the
  blob store's \<open>readBlob(name, dir, {allowMissing}) -> value | null\<close>. A template is the
  store's content: \<open>None\<close> is the \<open>null\<close> that a read gives.
\<close>

record template =
  t_collections :: "collection list option"
  t_fields :: "field list option"
  t_relations :: "relation list option"
  t_content :: "string \<Rightarrow> blob option"

definition readFile_or_empty :: "'a list option \<Rightarrow> 'a list" where
  "readFile_or_empty b = (case b of None \<Rightarrow> [] | Some xs \<Rightarrow> xs)"

section \<open>Errors and the error-capture point\<close>

datatype error =
    Fatal string string
  | Rejected string
  | TypeError
  | UxError string

text \<open>
  Modelled from the spec: \<open>catchError\<close> (utils/catch-error.js is not among the sources) is
  the single error-capture point, which "either escalates (process-level fatal exit) or
  records-and-continues, controlled by an explicit fatal flag on the call site". Its
  arguments here are the message, the operation named in the context, and the flag.
\<close>

definition catchError :: "string \<Rightarrow> string \<Rightarrow> bool \<Rightarrow> error + unit" where
  "catchError message operation fatal = (if fatal then Inl (Fatal message operation) else Inr ())"

section \<open>The target instance and the trace of requests\<close>

datatype request =
    ReadCollections
  | ReadItems string "string list" nat nat
  | CreateItems string "item list"
  | UpdateItemsBatch string "item list"
  | UpdateSingleton string item
  | ReadRelations
  | CreateRelation relation

text \<open>
  The authenticated client \<open>api.client\<close>: every request may fail (\<open>Inl\<close> the error's
  message) and may change the instance's state \<open>'st\<close>. Nothing is assumed about the
  instance. The arguments of \<open>readItems\<close> are the collection, the fields, the limit and
  the page. When several requests are in flight, \<open>schedule\<close> is the choice of the one
  that moves next: the instance and the network decide it, not the program.
\<close>

record 'st target =
  readCollections :: "'st \<Rightarrow> (string + collection list) \<times> 'st"
  readItems :: "string \<Rightarrow> string list \<Rightarrow> nat \<Rightarrow> nat \<Rightarrow> 'st \<Rightarrow> (string + item list) \<times> 'st"
  readRelations :: "'st \<Rightarrow> (string + relation list) \<times> 'st"
  submit :: "request \<Rightarrow> 'st \<Rightarrow> (string + unit) \<times> 'st"
  schedule :: "'st \<Rightarrow> nat \<times> 'st"

record 'st world =
  tstate :: 'st
  trace :: "request list"

definition request :: "request \<Rightarrow> ('st \<Rightarrow> (string + 'a) \<times> 'st) \<Rightarrow> 'st world \<Rightarrow> (string + 'a) \<times> 'st world" where
  "request rq op w =
     (case op (tstate w) of (r, s') \<Rightarrow> (r, \<lparr>tstate = s', trace = trace w @ [rq]\<rparr>))"

section \<open>The API's authentication middleware\<close>

text \<open>
  A JavaScript string is a sequence of UTF-16 code units, and part of the white space
  that \<open>String.prototype.trim\<close> removes lies outside the 8-bit characters. The token of
  the environment and the values of the headers are therefore sequences of code units
  (numbers below 65536); \<open>utf16\<close> gives the code units of an ASCII literal of the source.
\<close>

type_synonym jsstring = "nat list"

definition utf16 :: "string \<Rightarrow> jsstring" where
  "utf16 s = map of_char s"

record headers =
  authorization :: "jsstring option"
  x_api_key :: "jsstring option"

datatype auth_result = Next | Status nat

text \<open>
  The white space of \<open>trim\<close> is WhiteSpace and LineTerminator of ECMAScript: TAB, LF, VT,
  FF, CR, the space, the no-break space, U+1680, U+2000 to U+200A, the line and
  paragraph separators U+2028 and U+2029, U+202F, U+205F, U+3000 and the byte order
  mark U+FEFF.
\<close>

definition is_space :: "nat \<Rightarrow> bool" where
  "is_space c =
     ((0x09 \<le> c \<and> c \<le> 0x0D) \<or> c = 0x20 \<or> c = 0xA0 \<or> c = 0x1680
      \<or> (0x2000 \<le> c \<and> c \<le> 0x200A) \<or> c = 0x2028 \<or> c = 0x2029 \<or> c = 0x202F
      \<or> c = 0x205F \<or> c = 0x3000 \<or> c = 0xFEFF)"

definition trim :: "jsstring \<Rightarrow> jsstring" where
  "trim s = rev (dropWhile is_space (rev (dropWhile is_space s)))"

definition truthy :: "'a list option \<Rightarrow> bool" where
  "truthy s = (case s of None \<Rightarrow> False | Some t \<Rightarrow> t \<noteq> [])"

text \<open>\<open>getApiToken\<close> reads \<open>process.env.API_AUTH_TOKEN\<close>: the environment is its argument.\<close>

definition getApiToken :: "jsstring option \<Rightarrow> jsstring option" where
  "getApiToken env = env"

definition isAuthEnabled :: "jsstring option \<Rightarrow> bool" where
  "isAuthEnabled env =
     (case getApiToken env of None \<Rightarrow> False | Some token \<Rightarrow> token \<noteq> [] \<and> length (trim token) > 0)"

definition providedToken :: "headers \<Rightarrow> jsstring option" where
  "providedToken h =
     (case authorization h of
        Some (c # cs) \<Rightarrow>
          (let authHeader = c # cs
           in Some (if startsWith authHeader (utf16 ''Bearer '') then drop 7 authHeader else authHeader))
      | _ \<Rightarrow> (if truthy (x_api_key h) then x_api_key h else None))"

definition authMiddleware :: "jsstring option \<Rightarrow> headers \<Rightarrow> auth_result" where
  "authMiddleware env h =
     (case getApiToken env of
        None \<Rightarrow> Next
      | Some apiToken \<Rightarrow>
          if apiToken = [] \<or> length (trim apiToken) = 0 then Next
          else if \<not> truthy (providedToken h) then Status 401
          else if providedToken h \<noteq> Some apiToken then Status 403
          else Next)"

section \<open>Extraction: the collections of the source instance\<close>

record extract_options =
  excludeExtensionCollections :: "bool option"

text \<open>\<open>collection.meta?.group\<close> compared with \<open>'_extensions'\<close>.\<close>

definition in_extensions_group :: "collection \<Rightarrow> bool" where
  "in_extensions_group c =
     (case c_meta c of None \<Rightarrow> False | Some m \<Rightarrow> m_group m = Some ''_extensions'')"

definition option_set :: "bool option \<Rightarrow> bool" where
  "option_set b = (case b of None \<Rightarrow> False | Some v \<Rightarrow> v)"

text \<open>
  \<open>extractCollections\<close> returns the blob it writes under the name \<open>collections\<close>
  (\<open>None\<close> when nothing is written).
\<close>

definition extractCollections :: "'st target \<Rightarrow> extract_options \<Rightarrow> 'st world \<Rightarrow> (error + collection list option) \<times> 'st world" where
  "extractCollections tgt options w =
     (case request ReadCollections (readCollections tgt) w of
        (Inl msg, w') \<Rightarrow>
          (case catchError msg ''extractCollections'' True of
             Inl e \<Rightarrow> (Inl e, w')
           | Inr _ \<Rightarrow> (Inr None, w'))
      | (Inr response, w') \<Rightarrow>
          (let collections =
                 filter (\<lambda>collection. \<not> in_extensions_group collection)
                   (filter (\<lambda>collection. \<not> startsWith (c_collection collection) ''directus_'') response);
               collections =
                 (if option_set (excludeExtensionCollections options)
                  then filter (\<lambda>collection. \<not> in_extensions_group collection) collections
                  else collections)
           in (Inr (Some collections), w')))"

text \<open>\<open>getCollections\<close> of the content extractor: the request is not in a \<open>try\<close> here.\<close>

definition getCollections :: "'st target \<Rightarrow> extract_options \<Rightarrow> 'st world \<Rightarrow> (error + string list) \<times> 'st world" where
  "getCollections tgt options w =
     (case request ReadCollections (readCollections tgt) w of
        (Inl msg, w') \<Rightarrow> (Inl (Rejected msg), w')
      | (Inr response, w') \<Rightarrow>
          (let collections =
                 filter (\<lambda>item. \<not> in_extensions_group item)
                   (filter (\<lambda>item. c_schema item \<noteq> None)
                     (filter (\<lambda>item. \<not> startsWith (c_collection item) ''directus_'') response));
               collections =
                 (if option_set (excludeExtensionCollections options)
                  then filter (\<lambda>item. \<not> in_extensions_group item) collections
                  else collections)
           in (Inr (map c_collection collections), w')))"

section \<open>Loading content: load-data.ts\<close>

definition BATCH_SIZE :: nat where
  "BATCH_SIZE = 50"

text \<open>
  Modelled from the spec: \<open>chunkArray\<close> (utils/chunk-array.js is not among the sources)
  cuts an array into consecutive "fixed-size batches", the last one shorter when the
  length is no multiple of the size.
\<close>

function chunkArray :: "'a list \<Rightarrow> nat \<Rightarrow> 'a list list" where
  "chunkArray array n =
     (if n = 0 \<or> array = [] then []
      else take n array # chunkArray (drop n array) n)"
  by pat_completeness auto
termination
  by (relation "measure (\<lambda>(array, n). length array)") auto

declare chunkArray.simps [simp del]

text \<open>
  \<open>Promise.all\<close> over functions that issue their requests when they are called: the
  requests are issued in the order of the array, and the result is the first error when
  there is one.
\<close>

fun promise_all :: "('w \<Rightarrow> (error + unit) \<times> 'w) list \<Rightarrow> 'w \<Rightarrow> (error + unit) \<times> 'w" where
  "promise_all [] w = (Inr (), w)"
| "promise_all (u # us) w =
     (case u w of (r, w') \<Rightarrow>
        (case promise_all us w' of (rs, w'') \<Rightarrow>
           (case r of Inl e \<Rightarrow> (Inl e, w'') | Inr _ \<Rightarrow> (rs, w''))))"

text \<open>
  A filter that reads \<open>item.meta.singleton\<close>: a \<open>null\<close> meta is a TypeError, which ends
  the whole chain.
\<close>

fun filter_meta :: "(coll_meta \<Rightarrow> bool) \<Rightarrow> collection list \<Rightarrow> error + collection list" where
  "filter_meta p [] = Inr []"
| "filter_meta p (item # items) =
     (case c_meta item of
        None \<Rightarrow> Inl TypeError
      | Some m \<Rightarrow>
          (case filter_meta p items of
             Inl e \<Rightarrow> Inl e
           | Inr rest \<Rightarrow> Inr (if p m then item # rest else rest)))"

definition userCollections :: "template \<Rightarrow> string set \<Rightarrow> error + collection list" where
  "userCollections tpl targetCollections =
     (case filter_meta (\<lambda>m. \<not> m_singleton m)
             (filter (\<lambda>item. c_schema item \<noteq> None)
               (filter (\<lambda>item. \<not> startsWith (c_collection item) ''directus_'')
                 (readFile_or_empty (t_collections tpl)))) of
        Inl e \<Rightarrow> Inl e
      | Inr items \<Rightarrow> Inr (filter (\<lambda>item. c_collection item \<in> targetCollections) items))"

definition singletonCollections :: "template \<Rightarrow> string set \<Rightarrow> error + collection list" where
  "singletonCollections tpl targetCollections =
     (case filter_meta (\<lambda>m. m_singleton m)
             (filter (\<lambda>item. \<not> startsWith (c_collection item) ''directus_'')
               (readFile_or_empty (t_collections tpl))) of
        Inl e \<Rightarrow> Inl e
      | Inr items \<Rightarrow> Inr (filter (\<lambda>item. c_collection item \<in> targetCollections) items))"

text \<open>
  \<open>getCollectionPrimaryKeys\<close> collects the primary keys in a plain object \<open>{}\<close>, which
  \<open>getPrimaryKey\<close> reads with \<open>collectionsMap[collection]\<close>. A plain object inherits the
  members of \<open>Object.prototype\<close>: reading a name that the object does not own gives the
  inherited member when there is one, a function or, for \<open>__proto__\<close>, the prototype
  itself, and all of them are truthy. Assigning a string to \<open>__proto__\<close> writes nothing.
  Where the value read is used as the name of a property or of a field, JavaScript
  converts it to a string; \<open>object_prototype\<close> gives that string for each inherited name.
\<close>

definition object_prototype :: "string \<rightharpoonup> string" where
  "object_prototype =
     map_of
       [(''constructor'', ''function Object() { [native code] }''),
        (''__defineGetter__'', ''function __defineGetter__() { [native code] }''),
        (''__defineSetter__'', ''function __defineSetter__() { [native code] }''),
        (''hasOwnProperty'', ''function hasOwnProperty() { [native code] }''),
        (''__lookupGetter__'', ''function __lookupGetter__() { [native code] }''),
        (''__lookupSetter__'', ''function __lookupSetter__() { [native code] }''),
        (''isPrototypeOf'', ''function isPrototypeOf() { [native code] }''),
        (''propertyIsEnumerable'', ''function propertyIsEnumerable() { [native code] }''),
        (''toString'', ''function toString() { [native code] }''),
        (''valueOf'', ''function valueOf() { [native code] }''),
        (''__proto__'', ''[object Object]''),
        (''toLocaleString'', ''function toLocaleString() { [native code] }'')]"

definition read_property :: "(string \<rightharpoonup> string) \<Rightarrow> string \<Rightarrow> string option" where
  "read_property object name =
     (case object name of Some v \<Rightarrow> Some v | None \<Rightarrow> object_prototype name)"

definition getCollectionPrimaryKeys :: "template \<Rightarrow> (string \<rightharpoonup> string)" where
  "getCollectionPrimaryKeys tpl =
     foldl (\<lambda>primaryKeys field.
              (case f_schema field of
                 None \<Rightarrow> primaryKeys
               | Some s \<Rightarrow>
                   if is_primary_key s \<and> f_collection field \<noteq> ''__proto__''
                   then primaryKeys(f_collection field \<mapsto> f_field field)
                   else primaryKeys))
       Map.empty (readFile_or_empty (t_fields tpl))"

text \<open>
  \<open>!collectionsMap[collection]\<close> holds for a name that is neither owned nor inherited,
  and for an empty field name. After an error that did not escalate, the function would
  return what it read (\<open>undefined\<close> or the empty string).
\<close>

definition getPrimaryKey :: "(string \<rightharpoonup> string) \<Rightarrow> string \<Rightarrow> error + string" where
  "getPrimaryKey collectionsMap collection =
     (if \<not> truthy (read_property collectionsMap collection) then
        (case catchError (''Collection '' @ collection @ '' not found in collections map'')
                ''getPrimaryKey'' True of
           Inl e \<Rightarrow> Inl e
         | Inr _ \<Rightarrow>
             Inr (case read_property collectionsMap collection of None \<Rightarrow> ''undefined'' | Some f \<Rightarrow> f))
      else Inr (case read_property collectionsMap collection of None \<Rightarrow> ''undefined'' | Some f \<Rightarrow> f))"

text \<open>
  The loop of \<open>getExistingPrimaryKeys\<close>, with its variables \<open>page\<close> and \<open>existingKeys\<close>
  as arguments: \<open>None\<close> is a loop that never ends.
\<close>

partial_function (option) getExistingPrimaryKeys_loop ::
  "'st target \<Rightarrow> string \<Rightarrow> string \<Rightarrow> nat \<Rightarrow> jv set \<Rightarrow> 'st world \<Rightarrow> ((error + jv set) \<times> 'st world) option" where
  "getExistingPrimaryKeys_loop tgt collection primaryKeyField page existingKeys w =
     (case request (ReadItems collection [primaryKeyField] 1000 page)
             (readItems tgt collection [primaryKeyField] 1000 page) w of
        (Inl msg, w') \<Rightarrow>
          (case catchError msg ''getExistingPrimaryKeys'' True of
             Inl e \<Rightarrow> Some (Inl e, w')
           | Inr _ \<Rightarrow> Some (Inr existingKeys, w'))
      | (Inr response, w') \<Rightarrow>
          if length response = 0 then Some (Inr existingKeys, w')
          else if length response < 1000
          then Some (Inr (existingKeys \<union> set (map (\<lambda>item. get_prop item primaryKeyField) response)), w')
          else getExistingPrimaryKeys_loop tgt collection primaryKeyField (page + 1)
                 (existingKeys \<union> set (map (\<lambda>item. get_prop item primaryKeyField) response)) w')"

declare getExistingPrimaryKeys_loop.simps [code]

definition getExistingPrimaryKeys ::
  "'st target \<Rightarrow> string \<Rightarrow> string \<Rightarrow> 'st world \<Rightarrow> ((error + jv set) \<times> 'st world) option" where
  "getExistingPrimaryKeys tgt collection primaryKeyField w =
     getExistingPrimaryKeys_loop tgt collection primaryKeyField 1 {} w"

definition uploadBatch ::
  "'st target \<Rightarrow> string \<Rightarrow> item list \<Rightarrow> (string \<Rightarrow> item list \<Rightarrow> request) \<Rightarrow> nat \<Rightarrow> 'st world \<Rightarrow> (error + unit) \<times> 'st world" where
  "uploadBatch tgt collection batch method batchIndex w =
     (case request (method collection batch) (submit tgt (method collection batch)) w of
        (Inl msg, w') \<Rightarrow> (catchError msg ''uploadBatch'' True, w')
      | (Inr _, w') \<Rightarrow> (Inr (), w'))"

text \<open>The rest pattern \<open>{user_created, user_updated, ...cleanedRow}\<close>.\<close>

definition without_audit :: "item \<Rightarrow> item" where
  "without_audit row = filter (\<lambda>(k, v). k \<noteq> ''user_created'' \<and> k \<noteq> ''user_updated'') row"

text \<open>
  The body that \<open>loadFullData\<close> runs for one collection. The batches are cut by
  \<open>chunkArray\<close>, which is given an array: content that is one record is a TypeError here.
\<close>

definition full_unit :: "'st target \<Rightarrow> template \<Rightarrow> collection \<Rightarrow> 'st world \<Rightarrow> (error + unit) \<times> 'st world" where
  "full_unit tgt tpl collection w =
     (let name = c_collection collection in
      case t_content tpl name of
        None \<Rightarrow> (Inr (), w)
      | Some (Single _) \<Rightarrow> (Inl TypeError, w)
      | Some (Rows rows) \<Rightarrow>
          (let batches = map (map without_audit) (chunkArray rows BATCH_SIZE)
           in promise_all
                (map (\<lambda>(index, batch). uploadBatch tgt name batch UpdateItemsBatch index)
                   (enumerate 0 batches)) w))"

definition loadFullData :: "'st target \<Rightarrow> template \<Rightarrow> string set \<Rightarrow> 'st world \<Rightarrow> (error + unit) \<times> 'st world" where
  "loadFullData tgt tpl targetCollections w =
     (case userCollections tpl targetCollections of
        Inl e \<Rightarrow> (Inl e, w)
      | Inr collections \<Rightarrow> promise_all (map (full_unit tgt tpl) collections) w)"

text \<open>
  The own properties that the rest pattern of \<open>loadSingletons\<close> copies: those of the
  record, or the indices of an array with its elements.
\<close>

fun digits :: "nat \<Rightarrow> string" where
  "digits n =
     (if n < 10 then [char_of (48 + n)] else digits (n div 10) @ [char_of (48 + n mod 10)])"

declare digits.simps [simp del]

definition own_properties :: "blob \<Rightarrow> item" where
  "own_properties data =
     (case data of
        Single record \<Rightarrow> record
      | Rows rows \<Rightarrow> map (\<lambda>(index, row). (digits index, JObj row)) (enumerate 0 rows))"

definition singleton_unit :: "'st target \<Rightarrow> template \<Rightarrow> collection \<Rightarrow> 'st world \<Rightarrow> (error + unit) \<times> 'st world" where
  "singleton_unit tgt tpl collection w =
     (let name = c_collection collection in
      case t_content tpl name of
        None \<Rightarrow> (Inr (), w)
      | Some data \<Rightarrow>
          (let cleanedData = without_audit (own_properties data) in
           case request (UpdateSingleton name cleanedData) (submit tgt (UpdateSingleton name cleanedData)) w of
             (Inl msg, w') \<Rightarrow> (catchError msg ''loadSingletons'' True, w')
           | (Inr _, w') \<Rightarrow> (Inr (), w')))"

definition loadSingletons :: "'st target \<Rightarrow> template \<Rightarrow> string set \<Rightarrow> 'st world \<Rightarrow> (error + unit) \<times> 'st world" where
  "loadSingletons tgt tpl targetCollections w =
     (case singletonCollections tpl targetCollections of
        Inl e \<Rightarrow> (Inl e, w)
      | Inr collections \<Rightarrow> promise_all (map (singleton_unit tgt tpl) collections) w)"

section \<open>Requests in flight\<close>

text \<open>
  \<open>loadData\<close> awaits its three phases one after the other, and each phase awaits
  \<open>Promise.all\<close> over async functions that were all called: the requests of one phase are
  in flight together. JavaScript runs an async function without interruption from one
  \<open>await\<close> to the next, so a run is a sequence of events of three kinds: a request is
  issued (\<open>api.client.request\<close> is called), the target handles a request that is in
  flight, or the answer to a handled request is delivered and the function that awaits
  it runs up to its next \<open>await\<close>. The order in which the requests in flight are handled
  and their answers delivered is not the program's: it is the target's \<open>schedule\<close>.
\<close>

datatype response =
    Collections "collection list"
  | Items "item list"
  | Relations "relation list"
  | Written

type_synonym answer = "string + response"

definition handle :: "'st target \<Rightarrow> request \<Rightarrow> 'st \<Rightarrow> answer \<times> 'st" where
  "handle tgt rq s =
     (case rq of
        ReadCollections \<Rightarrow> (case readCollections tgt s of (r, s') \<Rightarrow> (map_sum id Collections r, s'))
      | ReadItems c names limit page \<Rightarrow>
          (case readItems tgt c names limit page s of (r, s') \<Rightarrow> (map_sum id Items r, s'))
      | ReadRelations \<Rightarrow> (case readRelations tgt s of (r, s') \<Rightarrow> (map_sum id Relations r, s'))
      | _ \<Rightarrow> (case submit tgt rq s of (r, s') \<Rightarrow> (map_sum id (\<lambda>u. Written) r, s')))"

text \<open>
  A request in flight: its number (its position in the trace), the request, and the
  answer once the target has handled it.
\<close>

type_synonym flight = "nat \<times> request \<times> answer option"

datatype owner = Main | Unit nat

datatype event =
    Issued owner nat request
  | Handled owner nat request answer
  | Delivered owner nat request answer

text \<open>
  What an async function of \<open>loadData\<close> does when it runs up to its next \<open>await\<close>: it
  returns, it throws, it awaits one page of \<open>getExistingPrimaryKeys\<close> (the collection, the
  primary-key field, the content, the page and the keys so far), or it awaits
  \<open>Promise.all\<close> over calls of \<open>api.client.request\<close> made one after the other, in a
  \<open>try\<close> whose \<open>catch\<close> names the given operation.
\<close>

datatype action =
    Return
  | Throw error
  | AwaitPage string string blob nat "jv set"
  | AwaitAll string "request list"

text \<open>
  The body of the loop of \<open>getExistingPrimaryKeys\<close> after its \<open>await\<close>: the loop goes on
  with more keys, or the function returns.
\<close>

datatype paging = NextPage "jv set" | Done "error + jv set"

definition page_answer :: "string \<Rightarrow> jv set \<Rightarrow> string + item list \<Rightarrow> paging" where
  "page_answer primaryKeyField existingKeys r =
     (case r of
        Inl msg \<Rightarrow>
          (case catchError msg ''getExistingPrimaryKeys'' True of
             Inl e \<Rightarrow> Done (Inl e)
           | Inr _ \<Rightarrow> Done (Inr existingKeys))
      | Inr response \<Rightarrow>
          if length response = 0 then Done (Inr existingKeys)
          else if length response < 1000
          then Done (Inr (existingKeys \<union> set (map (\<lambda>item. get_prop item primaryKeyField) response)))
          else NextPage (existingKeys \<union> set (map (\<lambda>item. get_prop item primaryKeyField) response)))"

text \<open>
  The function that \<open>loadSkeletonRecords\<close> maps over the collections: up to its first
  \<open>await\<close>, after a page, and after \<open>getExistingPrimaryKeys\<close> has returned.
\<close>

definition skeleton_action :: "template \<Rightarrow> (string \<rightharpoonup> string) \<Rightarrow> collection \<Rightarrow> action" where
  "skeleton_action tpl primaryKeyMap collection =
     (let name = c_collection collection in
      case t_content tpl name of
        None \<Rightarrow> Return
      | Some data \<Rightarrow>
          (case getPrimaryKey primaryKeyMap name of
             Inl e \<Rightarrow> Throw e
           | Inr primaryKeyField \<Rightarrow> AwaitPage name primaryKeyField data 1 {}))"

definition skeleton_create :: "string \<Rightarrow> string \<Rightarrow> blob \<Rightarrow> jv set \<Rightarrow> action" where
  "skeleton_create name primaryKeyField data existingPrimaryKeys =
     (case data of
        Single _ \<Rightarrow> Throw TypeError
      | Rows rows \<Rightarrow>
          (let newData = filter (\<lambda>entry. get_prop entry primaryKeyField \<notin> existingPrimaryKeys) rows
           in if length newData = 0 then Return
              else
                (let batches =
                       map (map (\<lambda>entry. [(primaryKeyField, get_prop entry primaryKeyField)]))
                         (chunkArray newData BATCH_SIZE)
                 in AwaitAll ''uploadBatch'' (map (CreateItems name) batches))))"

definition skeleton_page :: "string \<Rightarrow> string \<Rightarrow> blob \<Rightarrow> nat \<Rightarrow> jv set \<Rightarrow> answer \<Rightarrow> action" where
  "skeleton_page name primaryKeyField data page existingKeys a =
     (case (case a of
              Inl msg \<Rightarrow> Some (Inl msg)
            | Inr (Items response) \<Rightarrow> Some (Inr response)
            | Inr _ \<Rightarrow> None) of
        None \<Rightarrow> Throw TypeError
      | Some r \<Rightarrow>
          (case page_answer primaryKeyField existingKeys r of
             NextPage keys \<Rightarrow> AwaitPage name primaryKeyField data (page + 1) keys
           | Done (Inl e) \<Rightarrow> Throw e
           | Done (Inr existingPrimaryKeys) \<Rightarrow>
               skeleton_create name primaryKeyField data existingPrimaryKeys))"

text \<open>The functions that \<open>loadFullData\<close> and \<open>loadSingletons\<close> map over the collections.\<close>

definition full_action :: "template \<Rightarrow> collection \<Rightarrow> action" where
  "full_action tpl collection =
     (let name = c_collection collection in
      case t_content tpl name of
        None \<Rightarrow> Return
      | Some (Single _) \<Rightarrow> Throw TypeError
      | Some (Rows rows) \<Rightarrow>
          (let batches = map (map without_audit) (chunkArray rows BATCH_SIZE)
           in AwaitAll ''uploadBatch'' (map (UpdateItemsBatch name) batches)))"

definition singleton_action :: "template \<Rightarrow> collection \<Rightarrow> action" where
  "singleton_action tpl collection =
     (let name = c_collection collection in
      case t_content tpl name of
        None \<Rightarrow> Return
      | Some data \<Rightarrow>
          (let cleanedData = without_audit (own_properties data)
           in AwaitAll ''loadSingletons'' [UpdateSingleton name cleanedData]))"

text \<open>
  The functions that a phase calls, in the order of the array (1 the skeleton records, 2
  the full data, 3 the singletons); a TypeError of the filters ends the phase before any
  is called.
\<close>

definition phase_actions :: "template \<Rightarrow> nat \<Rightarrow> string set \<Rightarrow> error + action list" where
  "phase_actions tpl n targetCollections =
     (if n = 1 then
        (let primaryKeyMap = getCollectionPrimaryKeys tpl
         in map_sum id (map (skeleton_action tpl primaryKeyMap)) (userCollections tpl targetCollections))
      else if n = 2 then map_sum id (map (full_action tpl)) (userCollections tpl targetCollections)
      else map_sum id (map (singleton_action tpl)) (singletonCollections tpl targetCollections))"

text \<open>
  A function of a phase between two events: it awaits a page, it awaits the answers to
  the requests that are left of those it made together, it has returned, or it has
  thrown (the requests that it made are still in flight then).
\<close>

datatype unit_state =
    Paging string string blob nat "jv set" flight
  | Uploading string "flight list"
  | Resolved
  | Failed error "flight list"

datatype main_state = Listing flight | Awaiting | Returned | Threw error

text \<open>
  A run of \<open>loadData\<close> between two events: the target and the trace, where \<open>loadData\<close>
  itself stands, its variable \<open>targetCollections\<close>, the phase (0 before the first), the
  functions of that phase, and the events so far.
\<close>

record 'st config =
  cf_world :: "'st world"
  cf_main :: main_state
  cf_targets :: "string set"
  cf_stage :: nat
  cf_units :: "unit_state list"
  cf_events :: "event list"

definition issue_all :: "owner \<Rightarrow> request list \<Rightarrow> 'st config \<Rightarrow> flight list \<times> 'st config" where
  "issue_all ow rqs cf =
     (let n = length (trace (cf_world cf))
      in (map (\<lambda>(i, rq). (i, rq, None)) (enumerate n rqs),
          cf\<lparr>cf_world := (cf_world cf)\<lparr>trace := trace (cf_world cf) @ rqs\<rparr>,
             cf_events := cf_events cf @ map (\<lambda>(i, rq). Issued ow i rq) (enumerate n rqs)\<rparr>))"

definition perform :: "owner \<Rightarrow> action \<Rightarrow> 'st config \<Rightarrow> unit_state \<times> 'st config" where
  "perform ow act cf =
     (case act of
        Return \<Rightarrow> (Resolved, cf)
      | Throw e \<Rightarrow> (Failed e [], cf)
      | AwaitPage name primaryKeyField data page keys \<Rightarrow>
          (case issue_all ow [ReadItems name [primaryKeyField] 1000 page] cf of
             (fls, cf') \<Rightarrow> (Paging name primaryKeyField data page keys (hd fls), cf'))
      | AwaitAll operation rqs \<Rightarrow>
          (case issue_all ow rqs cf of
             (fls, cf') \<Rightarrow> (if fls = [] then Resolved else Uploading operation fls, cf')))"

text \<open>\<open>array.map\<close> calls the functions in the order of the array.\<close>

definition launch :: "action list \<Rightarrow> 'st config \<Rightarrow> 'st config" where
  "launch acts cf =
     foldl (\<lambda>cf act.
              case perform (Unit (length (cf_units cf))) act cf of
                (u, cf') \<Rightarrow> cf'\<lparr>cf_units := cf_units cf' @ [u]\<rparr>)
       (cf\<lparr>cf_units := []\<rparr>) acts"

text \<open>\<open>Promise.all\<close> rejects with the first rejection.\<close>

fun first_rejection :: "unit_state list \<Rightarrow> error option" where
  "first_rejection [] = None"
| "first_rejection (Failed e fls # us) = Some e"
| "first_rejection (u # us) = first_rejection us"

definition begin_phase :: "template \<Rightarrow> nat \<Rightarrow> 'st config \<Rightarrow> 'st config" where
  "begin_phase tpl n cf =
     (case phase_actions tpl n (cf_targets cf) of
        Inl e \<Rightarrow> cf\<lparr>cf_main := Threw e, cf_stage := n, cf_units := []\<rparr>
      | Inr acts \<Rightarrow>
          (let cf' = launch acts (cf\<lparr>cf_stage := n\<rparr>)
           in cf'\<lparr>cf_main := (case first_rejection (cf_units cf') of
                                Some e \<Rightarrow> Threw e
                              | None \<Rightarrow> Awaiting)\<rparr>))"

text \<open>
  When every function of the phase has returned, \<open>loadData\<close> goes on: to the next phase,
  or to its end after the third. A phase whose functions all return at once is followed
  by the next one in the same turn.
\<close>

definition proceed :: "template \<Rightarrow> 'st config \<Rightarrow> 'st config" where
  "proceed tpl cf =
     (if cf_main cf = Awaiting \<and> list_all (\<lambda>u. u = Resolved) (cf_units cf)
      then (if cf_stage cf < 3 then begin_phase tpl (cf_stage cf + 1) cf
            else cf\<lparr>cf_main := Returned\<rparr>)
      else cf)"

definition settle :: "template \<Rightarrow> 'st config \<Rightarrow> 'st config" where
  "settle tpl cf = proceed tpl (proceed tpl (proceed tpl cf))"

definition flights_of :: "unit_state \<Rightarrow> flight list" where
  "flights_of u =
     (case u of
        Paging name primaryKeyField data page keys fl \<Rightarrow> [fl]
      | Uploading operation fls \<Rightarrow> fls
      | Resolved \<Rightarrow> []
      | Failed e fls \<Rightarrow> fls)"

definition in_flight :: "'st config \<Rightarrow> flight list" where
  "in_flight cf =
     (case cf_main cf of Listing fl \<Rightarrow> [fl] | _ \<Rightarrow> []) @ concat (map flights_of (cf_units cf))"

text \<open>The function and its flight at a position among the flights of all functions.\<close>

fun locate :: "unit_state list \<Rightarrow> nat \<Rightarrow> nat \<times> nat" where
  "locate [] k = (0, k)"
| "locate (u # us) k =
     (if k < length (flights_of u) then (0, k)
      else (case locate us (k - length (flights_of u)) of (j, i) \<Rightarrow> (Suc j, i)))"

definition record_answer :: "unit_state \<Rightarrow> nat \<Rightarrow> answer \<Rightarrow> unit_state" where
  "record_answer u i a =
     (case u of
        Paging name primaryKeyField data page keys fl \<Rightarrow>
          Paging name primaryKeyField data page keys (fst fl, fst (snd fl), Some a)
      | Uploading operation fls \<Rightarrow>
          Uploading operation (fls[i := (fst (fls ! i), fst (snd (fls ! i)), Some a)])
      | Resolved \<Rightarrow> Resolved
      | Failed e fls \<Rightarrow> Failed e (fls[i := (fst (fls ! i), fst (snd (fls ! i)), Some a)]))"

text \<open>
  The answer to flight \<open>i\<close> of a function is delivered. For the requests made together,
  \<open>uploadBatch\<close> (or the \<open>try\<close> of \<open>loadSingletons\<close>) passes a failure to \<open>catchError\<close>, and
  the function returns when the last answer is there. Answers to a function that has
  thrown change nothing.
\<close>

definition resume :: "owner \<Rightarrow> unit_state \<Rightarrow> nat \<Rightarrow> answer \<Rightarrow> 'st config \<Rightarrow> unit_state \<times> 'st config" where
  "resume ow u i a cf =
     (case u of
        Paging name primaryKeyField data page keys fl \<Rightarrow>
          perform ow (skeleton_page name primaryKeyField data page keys a) cf
      | Uploading operation fls \<Rightarrow>
          (let rest = take i fls @ drop (Suc i) fls;
               after = (if rest = [] then Resolved else Uploading operation rest)
           in case a of
                Inl msg \<Rightarrow>
                  (case catchError msg operation True of
                     Inl e \<Rightarrow> (Failed e rest, cf)
                   | Inr _ \<Rightarrow> (after, cf))
              | Inr _ \<Rightarrow> (after, cf))
      | Resolved \<Rightarrow> (Resolved, cf)
      | Failed e fls \<Rightarrow> (Failed e (take i fls @ drop (Suc i) fls), cf))"

text \<open>
  An event on the request of \<open>getTargetCollectionNames\<close>: a failure is not caught, and
  the names of the collections of the target start the first phase.
\<close>

definition main_event :: "'st target \<Rightarrow> template \<Rightarrow> flight \<Rightarrow> 'st config \<Rightarrow> 'st config" where
  "main_event tgt tpl fl cf =
     (case fl of (n, rq, answered) \<Rightarrow>
        (case answered of
           None \<Rightarrow>
             (case handle tgt rq (tstate (cf_world cf)) of
                (a, s') \<Rightarrow>
                  cf\<lparr>cf_world := (cf_world cf)\<lparr>tstate := s'\<rparr>,
                     cf_main := Listing (n, rq, Some a),
                     cf_events := cf_events cf @ [Handled Main n rq a]\<rparr>)
         | Some a \<Rightarrow>
             (let cf' = cf\<lparr>cf_events := cf_events cf @ [Delivered Main n rq a]\<rparr>
              in case a of
                   Inl msg \<Rightarrow> cf'\<lparr>cf_main := Threw (Rejected msg)\<rparr>
                 | Inr (Collections collections) \<Rightarrow>
                     settle tpl
                       (begin_phase tpl 1
                          (cf'\<lparr>cf_main := Awaiting,
                               cf_targets := set (map c_collection collections)\<rparr>))
                 | Inr _ \<Rightarrow> cf'\<lparr>cf_main := Threw TypeError\<rparr>)))"

text \<open>
  An event on flight \<open>i\<close> of function \<open>j\<close>. While \<open>loadData\<close> awaits the phase, a function
  that throws makes \<open>loadData\<close> throw, and one that returns may end the phase.
\<close>

definition unit_event :: "'st target \<Rightarrow> template \<Rightarrow> nat \<Rightarrow> nat \<Rightarrow> 'st config \<Rightarrow> 'st config" where
  "unit_event tgt tpl j i cf =
     (let u = cf_units cf ! j in
      case flights_of u ! i of (n, rq, answered) \<Rightarrow>
        (case answered of
           None \<Rightarrow>
             (case handle tgt rq (tstate (cf_world cf)) of
                (a, s') \<Rightarrow>
                  cf\<lparr>cf_world := (cf_world cf)\<lparr>tstate := s'\<rparr>,
                     cf_units := (cf_units cf)[j := record_answer u i a],
                     cf_events := cf_events cf @ [Handled (Unit j) n rq a]\<rparr>)
         | Some a \<Rightarrow>
             (case resume (Unit j) u i a (cf\<lparr>cf_events := cf_events cf @ [Delivered (Unit j) n rq a]\<rparr>) of
                (u', cf') \<Rightarrow>
                  (let cf'' = cf'\<lparr>cf_units := (cf_units cf')[j := u']\<rparr>
                   in if cf_main cf'' = Awaiting
                      then (case u' of
                              Failed e fls \<Rightarrow> cf''\<lparr>cf_main := Threw e\<rparr>
                            | _ \<Rightarrow> settle tpl cf'')
                      else cf''))))"

text \<open>
  One event, on the flight that the target chooses (its number is read modulo the
  number of flights); \<open>None\<close> when nothing is in flight.
\<close>

definition step :: "'st target \<Rightarrow> template \<Rightarrow> 'st config \<Rightarrow> 'st config option" where
  "step tgt tpl cf =
     (if in_flight cf = [] then None
      else
        (case schedule tgt (tstate (cf_world cf)) of
           (k, s) \<Rightarrow>
             (let cf' = cf\<lparr>cf_world := (cf_world cf)\<lparr>tstate := s\<rparr>\<rparr>
              in case cf_main cf of
                   Listing fl \<Rightarrow> Some (main_event tgt tpl fl cf')
                 | _ \<Rightarrow>
                     (case locate (cf_units cf) (k mod length (in_flight cf)) of
                        (j, i) \<Rightarrow> Some (unit_event tgt tpl j i cf')))))"






section \<open>Loading relations: load-relations.ts\<close>

text \<open>
  The identity key, a template string: a \<open>null\<close> related collection prints as \<open>null\<close>.
\<close>

definition relation_key :: "relation \<Rightarrow> string" where
  "relation_key relation =
     r_collection relation @ '':'' @ r_field relation @ '':'' @
       (case r_related_collection relation of None \<Rightarrow> ''null'' | Some c \<Rightarrow> c)"

definition involves :: "string set \<Rightarrow> relation \<Rightarrow> bool" where
  "involves names relation =
     (r_collection relation \<in> names \<or>
      (case r_related_collection relation of None \<Rightarrow> False | Some c \<Rightarrow> c \<in> names))"




definition filtered_relations :: "template \<Rightarrow> relation list \<Rightarrow> relation list" where
  "filtered_relations tpl allRelations =
     (let collections = readFile_or_empty (t_collections tpl);
          extensionCollectionNames = set (map c_collection (filter in_extensions_group collections))
      in filter (\<lambda>relation. \<not> involves extensionCollectionNames relation) allRelations)"


section \<open>The apply orchestrator\<close>

record flags =
  schema :: bool
  permissions :: bool
  users :: bool
  files :: bool
  content :: bool
  dashboards :: bool
  flows :: bool
  settings :: bool
  extensions :: bool

type_synonym 'st step = "'st world \<Rightarrow> ((error + unit) \<times> 'st world) option"







section \<open>A reference target\<close>

text \<open>
  An instance that stores what it is sent and never fails, to run the loaders on: the
  items of each collection in the order of their creation, served in pages; an update
  is merged into the items that have its primary key. Its choices among the requests in
  flight are the numbers of \<open>s_schedule\<close>, and the oldest flight when the list is empty.
\<close>

record store =
  s_collections :: "collection list"
  s_primary_key :: "string \<Rightarrow> string"
  s_items :: "string \<Rightarrow> item list"
  s_singletons :: "string \<Rightarrow> item"
  s_relations :: "relation list"
  s_schedule :: "nat list"

definition project :: "string list \<Rightarrow> item \<Rightarrow> item" where
  "project names it = filter (\<lambda>(k, v). k \<in> set names) it"

definition update_item :: "string \<Rightarrow> item \<Rightarrow> item \<Rightarrow> item" where
  "update_item pk payload it =
     (if get_prop it pk = get_prop payload pk
      then payload @ filter (\<lambda>(k, v). map_of payload k = None) it
      else it)"

definition store_submit :: "request \<Rightarrow> store \<Rightarrow> (string + unit) \<times> store" where
  "store_submit rq s =
     (case rq of
        CreateItems c batch \<Rightarrow> (Inr (), s\<lparr>s_items := (s_items s)(c := s_items s c @ batch)\<rparr>)
      | UpdateItemsBatch c batch \<Rightarrow>
          (Inr (), s\<lparr>s_items := (s_items s)(c :=
             foldl (\<lambda>items payload. map (update_item (s_primary_key s c) payload) items)
               (s_items s c) batch)\<rparr>)
      | UpdateSingleton c data \<Rightarrow> (Inr (), s\<lparr>s_singletons := (s_singletons s)(c := data)\<rparr>)
      | CreateRelation relation \<Rightarrow> (Inr (), s\<lparr>s_relations := s_relations s @ [relation]\<rparr>)
      | _ \<Rightarrow> (Inl ''not a write'', s))"

definition store_target :: "store target" where
  "store_target =
     \<lparr>readCollections = (\<lambda>s. (Inr (s_collections s), s)),
      readItems = (\<lambda>c names limit page s.
        (Inr (map (project names) (take limit (drop ((page - 1) * limit) (s_items s c)))), s)),
      readRelations = (\<lambda>s. (Inr (s_relations s), s)),
      submit = store_submit,
      schedule = (\<lambda>s. case s_schedule s of [] \<Rightarrow> (0, s) | k # ks \<Rightarrow> (k, s\<lparr>s_schedule := ks\<rparr>))\<rparr>"

subsection \<open>An example: articles and their authors\<close>

definition ex_collection :: "string \<Rightarrow> string option \<Rightarrow> bool \<Rightarrow> collection" where
  "ex_collection name grp single =
     \<lparr>c_collection = name, c_schema = Some [],
      c_meta = Some \<lparr>m_group = grp, m_singleton = single\<rparr>\<rparr>"

definition ex_primary_key :: "string \<Rightarrow> field" where
  "ex_primary_key name =
     \<lparr>f_collection = name, f_field = ''id'', f_schema = Some \<lparr>is_primary_key = True\<rparr>\<rparr>"

definition ex_relation :: "jv \<Rightarrow> relation" where
  "ex_relation surrogate =
     \<lparr>r_collection = ''articles'', r_field = ''author_id'',
      r_related_collection = Some ''authors'',
      r_meta = Some \<lparr>m_id = surrogate, m_rest = []\<rparr>\<rparr>"

definition ex_content :: "string \<Rightarrow> blob option" where
  "ex_content =
     map_of
       [(''articles'',
          Rows [[(''id'', JNum 1), (''author_id'', JNum 10), (''user_created'', JStr ''u1'')],
                [(''id'', JNum 2), (''author_id'', JNum 10)]]),
        (''authors'', Rows [[(''id'', JNum 10), (''name'', JStr ''Ann'')]]),
        (''site'', Single [(''title'', JStr ''News''), (''user_updated'', JStr ''u1'')])]"

definition ex_template :: template where
  "ex_template =
     \<lparr>t_collections =
        Some [ex_collection ''articles'' None False, ex_collection ''authors'' None False,
              ex_collection ''site'' None True],
      t_fields = Some [ex_primary_key ''articles'', ex_primary_key ''authors''],
      t_relations = Some [ex_relation (JNum 7)],
      t_content = ex_content\<rparr>"

definition ex_store :: store where
  "ex_store =
     \<lparr>s_collections =
        [ex_collection ''articles'' None False, ex_collection ''authors'' None False,
         ex_collection ''site'' None True, ex_collection ''geo'' (Some ''_extensions'') False,
         ex_collection ''directus_users'' None False],
      s_primary_key = (\<lambda>c. ''id''),
      s_items = (\<lambda>c. [])(''articles'' := [[(''id'', JNum 1)]]),
      s_singletons = (\<lambda>c. []),
      s_relations = [],
      s_schedule = []\<rparr>"

definition ex_world :: "store world" where
  "ex_world = \<lparr>tstate = ex_store, trace = []\<rparr>"



definition schema_and_content :: flags where
  "schema_and_content =
     \<lparr>schema = True, permissions = False, users = False, files = False, content = True,
      dashboards = False, flows = False, settings = False, extensions = False\<rparr>"

subsection \<open>An example: relations, one of them to a collection of an extension\<close>




section \<open>What a run adds to the trace\<close>

definition new_requests :: "'st world \<Rightarrow> 'st world \<Rightarrow> request list" where
  "new_requests w w' = drop (length (trace w)) (trace w')"

definition full_requests :: "template \<Rightarrow> collection \<Rightarrow> request list" where
  "full_requests tpl c =
     (case t_content tpl (c_collection c) of
        Some (Rows rows) \<Rightarrow>
          map (\<lambda>batch. UpdateItemsBatch (c_collection c) (map without_audit batch))
            (chunkArray rows BATCH_SIZE)
      | _ \<Rightarrow> [])"

definition singleton_requests :: "template \<Rightarrow> collection \<Rightarrow> request list" where
  "singleton_requests tpl c =
     (case t_content tpl (c_collection c) of
        Some data \<Rightarrow> [UpdateSingleton (c_collection c) (without_audit (own_properties data))]
      | None \<Rightarrow> [])"

section \<open>What the target answers to consecutive pages\<close>

text \<open>
  The answers of a target to \<open>n\<close> requests for consecutive pages of one collection, the
  first for page \<open>page\<close>, each sent in the state that the answer before left, and the
  state after the last answer.
\<close>

primrec pages_from :: "'st target \<Rightarrow> string \<Rightarrow> string \<Rightarrow> nat \<Rightarrow> nat \<Rightarrow> 'st \<Rightarrow> (string + item list) list \<times> 'st" where
  "pages_from tgt c f page 0 s = ([], s)"
| "pages_from tgt c f page (Suc n) s =
     (case readItems tgt c [f] 1000 page s of (r, s') \<Rightarrow>
        (case pages_from tgt c f (Suc page) n s' of (rs, s'') \<Rightarrow> (r # rs, s'')))"

definition full_page :: "string + item list \<Rightarrow> bool" where
  "full_page r = (case r of Inl msg \<Rightarrow> False | Inr response \<Rightarrow> 1000 \<le> length response)"

definition page_keys :: "string \<Rightarrow> string + item list \<Rightarrow> jv set" where
  "page_keys f r =
     (case r of Inl msg \<Rightarrow> {} | Inr response \<Rightarrow> set (map (\<lambda>item. get_prop item f) response))"

definition pagination_result :: "string \<Rightarrow> (string + item list) list \<Rightarrow> error + jv set" where
  "pagination_result f rs =
     (case last rs of
        Inl msg \<Rightarrow> Inl (Fatal msg ''getExistingPrimaryKeys'')
      | Inr response \<Rightarrow> Inr (\<Union> (set (map (page_keys f) rs))))"

text \<open>A target with one full page of items and nothing after it, in any collection.\<close>

definition ex_paged_target :: "unit target" where
  "ex_paged_target =
     \<lparr>readCollections = (\<lambda>s. (Inr [], s)),
      readItems = (\<lambda>c names limit page s.
        (Inr (if page = 1 then replicate limit [(''id'', JNum 5)] else []), s)),
      readRelations = (\<lambda>s. (Inr [], s)),
      submit = (\<lambda>rq s. (Inr (), s)),
      schedule = (\<lambda>s. (0, s))\<rparr>"

section \<open>The phases of a request\<close>

definition skeleton_request :: "request \<Rightarrow> bool" where
  "skeleton_request rq =
     (case rq of ReadItems c names limit page \<Rightarrow> True | CreateItems c batch \<Rightarrow> True | _ \<Rightarrow> False)"

definition full_request :: "request \<Rightarrow> bool" where
  "full_request rq = (case rq of UpdateItemsBatch c batch \<Rightarrow> True | _ \<Rightarrow> False)"

definition singleton_request :: "request \<Rightarrow> bool" where
  "singleton_request rq = (case rq of UpdateSingleton c data \<Rightarrow> True | _ \<Rightarrow> False)"

definition marked_primary_key :: "field \<Rightarrow> bool" where
  "marked_primary_key fld = (case f_schema fld of None \<Rightarrow> False | Some s \<Rightarrow> is_primary_key s)"

definition phase_of :: "request \<Rightarrow> nat" where
  "phase_of rq =
     (case rq of
        ReadCollections \<Rightarrow> 0
      | ReadItems c names limit page \<Rightarrow> 1
      | CreateItems c batch \<Rightarrow> 1
      | UpdateItemsBatch c batch \<Rightarrow> 2
      | UpdateSingleton c data \<Rightarrow> 3
      | _ \<Rightarrow> 4)"

section \<open>A relation without its surrogate identifier\<close>

definition cleared :: "relation \<Rightarrow> relation" where
  "cleared relation =
     relation\<lparr>r_meta := map_option (\<lambda>m. m\<lparr>m_id := Undefined\<rparr>) (r_meta relation)\<rparr>"

definition extension_names :: "template \<Rightarrow> string set" where
  "extension_names tpl =
     c_collection ` {c \<in> set (readFile_or_empty (t_collections tpl)). in_extensions_group c}"

section \<open>Primary keys in the reference target\<close>

definition store_keys :: "store \<Rightarrow> string \<Rightarrow> string \<Rightarrow> jv set" where
  "store_keys s c f = set (map (\<lambda>it. get_prop it f) (s_items s c))"

text \<open>
  Every record of the content of the collections \<open>cs\<close> has its primary-key value among
  the items of its collection in the store.
\<close>

definition keys_present :: "template \<Rightarrow> collection list \<Rightarrow> store \<Rightarrow> bool" where
  "keys_present tpl cs s =
     (\<forall>c\<in>set cs. \<forall>rows f.
        t_content tpl (c_collection c) = Some (Rows rows)
        \<and> getPrimaryKey (getCollectionPrimaryKeys tpl) (c_collection c) = Inr f \<longrightarrow>
        (\<forall>entry\<in>set rows. get_prop entry f \<in> store_keys s (c_collection c) f))"

definition creates :: "request \<Rightarrow> bool" where
  "creates rq = (case rq of CreateItems c batch \<Rightarrow> True | CreateRelation relation \<Rightarrow> True | _ \<Rightarrow> False)"

text \<open>
  What the writes of the loaders keep in the store: \<open>extends\<close> for the creations of the
  skeleton phase, \<open>same_keys\<close> for the updates.
\<close>

definition extends :: "store \<Rightarrow> store \<Rightarrow> bool" where
  "extends s s' =
     (s_collections s' = s_collections s \<and> s_primary_key s' = s_primary_key s
      \<and> s_relations s' = s_relations s
      \<and> (\<forall>c f. store_keys s c f \<subseteq> store_keys s' c f))"

definition same_keys :: "store \<Rightarrow> store \<Rightarrow> bool" where
  "same_keys s s' =
     (s_collections s' = s_collections s \<and> s_primary_key s' = s_primary_key s
      \<and> s_relations s' = s_relations s
      \<and> (\<forall>c. store_keys s' c (s_primary_key s c) = store_keys s c (s_primary_key s c)))"

definition relations_present :: "template \<Rightarrow> store \<Rightarrow> bool" where
  "relations_present tpl s =
     (\<forall>relation\<in>set (filtered_relations tpl (readFile_or_empty (t_relations tpl))).
        relation_key relation \<in> relation_key ` set (s_relations s))"

section \<open>Requests and their trace\<close>

lemma request_simps:
  "request rq op w = (fst (op (tstate w)), \<lparr>tstate = snd (op (tstate w)), trace = trace w @ [rq]\<rparr>)"
  by (simp add: request_def split: prod.splits)

section \<open>The authentication middleware\<close>

lemma is_space_iff:
  "is_space c \<longleftrightarrow>
     c \<in> {0x09, 0x0A, 0x0B, 0x0C, 0x0D, 0x20, 0xA0, 0x1680, 0x2000, 0x2001, 0x2002, 0x2003,
          0x2004, 0x2005, 0x2006, 0x2007, 0x2008, 0x2009, 0x200A, 0x2028, 0x2029, 0x202F,
          0x205F, 0x3000, 0xFEFF}"
proof -
  have "(0x09 \<le> c \<and> c \<le> 0x0D) \<longleftrightarrow> c \<in> {0x09, 0x0A, 0x0B, 0x0C, 0x0D}"
    by (simp only: insert_iff empty_iff) arith
  moreover have "(0x2000 \<le> c \<and> c \<le> 0x200A) \<longleftrightarrow>
      c \<in> {0x2000, 0x2001, 0x2002, 0x2003, 0x2004, 0x2005, 0x2006, 0x2007, 0x2008, 0x2009, 0x200A}"
    by (simp only: insert_iff empty_iff) arith
  ultimately show ?thesis unfolding is_space_def by (simp only: insert_iff empty_iff) blast
qed

lemma trim_Nil_iff: "trim s = [] \<longleftrightarrow> (\<forall>c\<in>set s. is_space c)"
proof
  assume "trim s = []"
  then have all: "\<forall>c\<in>set (dropWhile is_space s). is_space c"
    by (simp add: trim_def)
  have "dropWhile is_space s = []"
  proof (rule ccontr)
    assume ne: "dropWhile is_space s \<noteq> []"
    then have "\<not> is_space (hd (dropWhile is_space s))" by (rule hd_dropWhile)
    moreover have "hd (dropWhile is_space s) \<in> set (dropWhile is_space s)" using ne by simp
    ultimately show False using all by blast
  qed
  then show "\<forall>c\<in>set s. is_space c" by simp
next
  assume "\<forall>c\<in>set s. is_space c"
  then have "dropWhile is_space s = []" by simp
  then show "trim s = []" by (simp add: trim_def del: dropWhile_eq_Nil_conv)
qed

lemma blank_iff:
  "(apiToken = [] \<or> length (trim apiToken) = 0) \<longleftrightarrow>
     set apiToken \<subseteq> {0x09, 0x0A, 0x0B, 0x0C, 0x0D, 0x20, 0xA0, 0x1680, 0x2000, 0x2001, 0x2002,
          0x2003, 0x2004, 0x2005, 0x2006, 0x2007, 0x2008, 0x2009, 0x200A, 0x2028, 0x2029,
          0x202F, 0x205F, 0x3000, 0xFEFF}"
proof -
  have "(apiToken = [] \<or> length (trim apiToken) = 0) \<longleftrightarrow> (\<forall>c\<in>set apiToken. is_space c)"
    using trim_Nil_iff [of apiToken] by auto
  then show ?thesis unfolding is_space_iff by blast
qed

lemma authMiddleware_enabled:
  assumes "\<not> (apiToken = [] \<or> length (trim apiToken) = 0)"
  shows "authMiddleware (Some apiToken) h =
     (if \<not> truthy (providedToken h) then Status 401
      else if providedToken h \<noteq> Some apiToken then Status 403 else Next)"
  using assms by (auto simp: authMiddleware_def getApiToken_def)

lemma providedToken_authorization:
  "v \<noteq> [] \<Longrightarrow> authorization h = Some v \<Longrightarrow>
     providedToken h = Some (if take 7 v = map of_char ''Bearer '' then drop 7 v else v)"
proof -
  assume v: "v \<noteq> []" "authorization h = Some v"
  then have "providedToken h = Some (if startsWith v (utf16 ''Bearer '') then drop 7 v else v)"
    by (cases v) (simp_all add: providedToken_def Let_def)
  moreover have "length (utf16 ''Bearer '') = 7" by (simp add: utf16_def)
  then have "startsWith v (utf16 ''Bearer '') \<longleftrightarrow> take 7 v = map of_char ''Bearer ''"
    unfolding startsWith_def by (simp only: utf16_def)
  ultimately show ?thesis by simp
qed

lemma providedToken_x_api_key:
  "authorization h = None \<or> authorization h = Some [] \<Longrightarrow>
     providedToken h = (case x_api_key h of None \<Rightarrow> None | Some p \<Rightarrow> if p = [] then None else Some p)"
  by (auto simp: providedToken_def truthy_def split: option.splits)

text \<open>
  C10. When \<open>API_AUTH_TOKEN\<close> is unset, empty or made only of the white space that \<open>trim\<close>
  removes (the 25 code units listed), the middleware passes every request on, whatever
  its headers. Otherwise the token that a request provides is its Authorization header
  when that is not empty, without the first seven code units when they are \<open>Bearer\<close> and
  a space, and else its X-API-Key header; a request that provides no token or an empty
  one is answered 401, one that provides the configured token is passed on, and one that
  provides another token is answered 403.
\<close>

theorem authMiddleware_spec:
  "(env = None
      \<or> (\<exists>t. env = Some t
            \<and> set t \<subseteq> {0x09, 0x0A, 0x0B, 0x0C, 0x0D, 0x20, 0xA0, 0x1680, 0x2000, 0x2001, 0x2002,
                       0x2003, 0x2004, 0x2005, 0x2006, 0x2007, 0x2008, 0x2009, 0x200A, 0x2028,
                       0x2029, 0x202F, 0x205F, 0x3000, 0xFEFF}) \<longrightarrow>
      authMiddleware env h = Next)
   \<and> (env = Some token
        \<and> \<not> set token \<subseteq> {0x09, 0x0A, 0x0B, 0x0C, 0x0D, 0x20, 0xA0, 0x1680, 0x2000, 0x2001, 0x2002,
                       0x2003, 0x2004, 0x2005, 0x2006, 0x2007, 0x2008, 0x2009, 0x200A, 0x2028,
                       0x2029, 0x202F, 0x205F, 0x3000, 0xFEFF} \<longrightarrow>
        (\<forall>v. authorization h = Some v \<and> v \<noteq> [] \<longrightarrow>
           authMiddleware env h =
             (let provided = (if take 7 v = map of_char ''Bearer '' then drop 7 v else v)
              in if provided = [] then Status 401
                 else if provided = token then Next else Status 403))
      \<and> (authorization h = None \<or> authorization h = Some [] \<longrightarrow>
           authMiddleware env h =
             (case x_api_key h of
                None \<Rightarrow> Status 401
              | Some provided \<Rightarrow>
                  if provided = [] then Status 401
                  else if provided = token then Next else Status 403)))"
proof (intro conjI impI allI)
  assume "env = None
      \<or> (\<exists>t. env = Some t
            \<and> set t \<subseteq> {0x09, 0x0A, 0x0B, 0x0C, 0x0D, 0x20, 0xA0, 0x1680, 0x2000, 0x2001, 0x2002,
                       0x2003, 0x2004, 0x2005, 0x2006, 0x2007, 0x2008, 0x2009, 0x200A, 0x2028,
                       0x2029, 0x202F, 0x205F, 0x3000, 0xFEFF})"
  then show "authMiddleware env h = Next"
  proof
    assume "env = None"
    then show ?thesis by (simp add: authMiddleware_def getApiToken_def)
  next
    assume "\<exists>t. env = Some t
            \<and> set t \<subseteq> {0x09, 0x0A, 0x0B, 0x0C, 0x0D, 0x20, 0xA0, 0x1680, 0x2000, 0x2001, 0x2002,
                       0x2003, 0x2004, 0x2005, 0x2006, 0x2007, 0x2008, 0x2009, 0x200A, 0x2028,
                       0x2029, 0x202F, 0x205F, 0x3000, 0xFEFF}"
    then obtain t where t: "env = Some t" and "t = [] \<or> length (trim t) = 0"
      using blank_iff by blast
    then show ?thesis by (auto simp: authMiddleware_def getApiToken_def)
  qed
next
  fix v
  assume a: "env = Some token
        \<and> \<not> set token \<subseteq> {0x09, 0x0A, 0x0B, 0x0C, 0x0D, 0x20, 0xA0, 0x1680, 0x2000, 0x2001, 0x2002,
                       0x2003, 0x2004, 0x2005, 0x2006, 0x2007, 0x2008, 0x2009, 0x200A, 0x2028,
                       0x2029, 0x202F, 0x205F, 0x3000, 0xFEFF}"
    and v: "authorization h = Some v \<and> v \<noteq> []"
  from a have "\<not> (token = [] \<or> length (trim token) = 0)" using blank_iff [of token] by blast
  from authMiddleware_enabled [OF this, of h] a v providedToken_authorization [of v h]
  show "authMiddleware env h =
             (let provided = (if take 7 v = map of_char ''Bearer '' then drop 7 v else v)
              in if provided = [] then Status 401
                 else if provided = token then Next else Status 403)"
    by (simp add: truthy_def Let_def)
next
  assume a: "env = Some token
        \<and> \<not> set token \<subseteq> {0x09, 0x0A, 0x0B, 0x0C, 0x0D, 0x20, 0xA0, 0x1680, 0x2000, 0x2001, 0x2002,
                       0x2003, 0x2004, 0x2005, 0x2006, 0x2007, 0x2008, 0x2009, 0x200A, 0x2028,
                       0x2029, 0x202F, 0x205F, 0x3000, 0xFEFF}"
    and v: "authorization h = None \<or> authorization h = Some []"
  from a have "\<not> (token = [] \<or> length (trim token) = 0)" using blank_iff [of token] by blast
  from authMiddleware_enabled [OF this, of h] a providedToken_x_api_key [OF v]
  show "authMiddleware env h =
             (case x_api_key h of
                None \<Rightarrow> Status 401
              | Some provided \<Rightarrow>
                  if provided = [] then Status 401
                  else if provided = token then Next else Status 403)"
    by (simp add: truthy_def split: option.splits)
qed

theorem authMiddleware_spec_witness:
  "authMiddleware (Some [0xA0, 0x2028, 0xFEFF]) \<lparr>authorization = None, x_api_key = None\<rparr> = Next
   \<and> authMiddleware (Some (utf16 '' ''))
        \<lparr>authorization = Some (utf16 ''Bearer guess''), x_api_key = None\<rparr> = Next
   \<and> authMiddleware (Some (utf16 ''s3cret''))
        \<lparr>authorization = Some (utf16 ''Bearer s3cret''), x_api_key = None\<rparr> = Next
   \<and> authMiddleware (Some (utf16 ''s3cret''))
        \<lparr>authorization = Some (utf16 ''s3cret''), x_api_key = None\<rparr> = Next
   \<and> authMiddleware (Some (utf16 ''s3cret''))
        \<lparr>authorization = None, x_api_key = Some (utf16 ''s3cret'')\<rparr> = Next
   \<and> authMiddleware (Some (utf16 ''s3cret'')) \<lparr>authorization = None, x_api_key = None\<rparr> = Status 401
   \<and> authMiddleware (Some (utf16 ''s3cret''))
        \<lparr>authorization = Some (utf16 ''Bearer ''), x_api_key = Some (utf16 ''s3cret'')\<rparr> = Status 401
   \<and> authMiddleware (Some (utf16 ''s3cret''))
        \<lparr>authorization = Some (utf16 ''Bearer guess''), x_api_key = Some (utf16 ''s3cret'')\<rparr> = Status 403"
proof -
  let ?none = "\<lparr>authorization = None, x_api_key = None\<rparr>"
  let ?s = "utf16 ''s3cret''"
  note blank = authMiddleware_spec [THEN conjunct1]
  note auth = authMiddleware_spec [THEN conjunct2, THEN mp, THEN conjunct1, THEN spec, THEN mp]
  note key = authMiddleware_spec [THEN conjunct2, THEN mp, THEN conjunct2, THEN mp]
  have 1: "authMiddleware (Some [0xA0, 0x2028, 0xFEFF]) ?none = Next"
    by (rule blank [THEN mp]) simp
  have 2: "authMiddleware (Some (utf16 '' ''))
        \<lparr>authorization = Some (utf16 ''Bearer guess''), x_api_key = None\<rparr> = Next"
    by (rule blank [THEN mp]) (simp add: utf16_def)
  have 3: "authMiddleware (Some ?s) \<lparr>authorization = Some (utf16 ''Bearer s3cret''), x_api_key = None\<rparr> = Next"
    using auth [of "Some ?s" ?s "\<lparr>authorization = Some (utf16 ''Bearer s3cret''), x_api_key = None\<rparr>"
        "utf16 ''Bearer s3cret''"]
    by (simp add: utf16_def)
  have 4: "authMiddleware (Some ?s) \<lparr>authorization = Some ?s, x_api_key = None\<rparr> = Next"
    using auth [of "Some ?s" ?s "\<lparr>authorization = Some ?s, x_api_key = None\<rparr>" ?s]
    by (simp add: utf16_def)
  have 5: "authMiddleware (Some ?s) \<lparr>authorization = None, x_api_key = Some ?s\<rparr> = Next"
    using key [of "Some ?s" ?s "\<lparr>authorization = None, x_api_key = Some ?s\<rparr>"]
    by (simp add: utf16_def)
  have 6: "authMiddleware (Some ?s) ?none = Status 401"
    using key [of "Some ?s" ?s ?none] by (simp add: utf16_def)
  have 7: "authMiddleware (Some ?s)
        \<lparr>authorization = Some (utf16 ''Bearer ''), x_api_key = Some ?s\<rparr> = Status 401"
    using auth [of "Some ?s" ?s "\<lparr>authorization = Some (utf16 ''Bearer ''), x_api_key = Some ?s\<rparr>"
        "utf16 ''Bearer ''"]
    by (simp add: utf16_def)
  have 8: "authMiddleware (Some ?s)
        \<lparr>authorization = Some (utf16 ''Bearer guess''), x_api_key = Some ?s\<rparr> = Status 403"
    using auth [of "Some ?s" ?s "\<lparr>authorization = Some (utf16 ''Bearer guess''), x_api_key = Some ?s\<rparr>"
        "utf16 ''Bearer guess''"]
    by (simp add: utf16_def)
  from 1 2 3 4 5 6 7 8 show ?thesis by blast
qed

section \<open>The extension group at extraction\<close>

text \<open>
  C9. The collections extractor and the content extractor leave out every collection of
  the \<open>_extensions\<close> group whatever \<open>excludeExtensionCollections\<close> is (true, false or
  absent): the result is the same for any two values of the option, and it is the
  response without the system collections and without the collections of that group
  (and, for content, without the collections that have no schema).
\<close>

theorem extension_filter_unconditional:
  "extractCollections tgt options w = extractCollections tgt options' w
   \<and> getCollections tgt options w = getCollections tgt options' w
   \<and> (readCollections tgt (tstate w) = (Inr response, s') \<longrightarrow>
        fst (extractCollections tgt options w) =
          Inr (Some (filter (\<lambda>c. \<not> startsWith (c_collection c) ''directus_'' \<and> \<not> in_extensions_group c) response))
      \<and> fst (getCollections tgt options w) =
          Inr (map c_collection
                (filter (\<lambda>c. \<not> startsWith (c_collection c) ''directus_'' \<and> c_schema c \<noteq> None
                          \<and> \<not> in_extensions_group c) response)))"
  by (auto simp: extractCollections_def getCollections_def request_simps Let_def
      split: sum.splits prod.splits intro: filter_cong)

theorem extension_filter_unconditional_witness:
  "fst (extractCollections store_target \<lparr>excludeExtensionCollections = Some False\<rparr> ex_world) =
     Inr (Some [ex_collection ''articles'' None False, ex_collection ''authors'' None False,
                ex_collection ''site'' None True])
   \<and> fst (getCollections store_target \<lparr>excludeExtensionCollections = None\<rparr> ex_world) =
     Inr [''articles'', ''authors'', ''site'']"
proof -
  have r: "readCollections store_target (tstate ex_world) = (Inr (s_collections ex_store), ex_store)"
    by (simp add: store_target_def ex_world_def)
  show ?thesis
    using extension_filter_unconditional [of store_target "\<lparr>excludeExtensionCollections = Some False\<rparr>"
        ex_world "\<lparr>excludeExtensionCollections = None\<rparr>" "s_collections ex_store" ex_store] r
      extension_filter_unconditional [of store_target "\<lparr>excludeExtensionCollections = None\<rparr>"
        ex_world "\<lparr>excludeExtensionCollections = None\<rparr>" "s_collections ex_store" ex_store]
    by (simp add: ex_store_def ex_collection_def startsWith_def in_extensions_group_def)
qed

section \<open>The compatibility check of apply\<close>



section \<open>Batches and fan-out\<close>

lemma chunkArray_Nil [simp]: "chunkArray [] n = []"
  by (simp add: chunkArray.simps)

lemma chunkArray_concat: "0 < n \<Longrightarrow> concat (chunkArray xs n) = xs"
proof (induction xs n rule: chunkArray.induct)
  case (1 array n)
  then show ?case by (subst chunkArray.simps) auto
qed

lemma chunkArray_batch: "b \<in> set (chunkArray xs n) \<Longrightarrow> b \<noteq> [] \<and> length b \<le> n \<and> set b \<subseteq> set xs"
proof (induction xs n rule: chunkArray.induct)
  case (1 array n)
  show ?case
  proof (cases "n = 0 \<or> array = []")
    case True
    with "1.prems" show ?thesis by (simp add: chunkArray.simps)
  next
    case False
    with "1.prems" have "b = take n array \<or> b \<in> set (chunkArray (drop n array) n)"
      by (subst (asm) chunkArray.simps) auto
    then show ?thesis
    proof
      assume "b = take n array"
      with False show ?thesis by (auto dest: in_set_takeD)
    next
      assume "b \<in> set (chunkArray (drop n array) n)"
      with "1.IH" False show ?thesis by (auto dest: in_set_dropD)
    qed
  qed
qed

lemma chunkArray_map: "chunkArray (map f xs) n = map (map f) (chunkArray xs n)"
proof (induction xs n rule: chunkArray.induct)
  case (1 array n)
  show ?case
  proof (cases "n = 0 \<or> array = []")
    case True
    then show ?thesis by (auto simp: chunkArray.simps)
  next
    case False
    with "1.IH" show ?thesis
      by (subst chunkArray.simps, subst (2) chunkArray.simps) (simp add: take_map drop_map)
  qed
qed

lemma promise_all_Cons_snd: "snd (promise_all (u # us) w) = snd (promise_all us (snd (u w)))"
  by (simp split: prod.splits sum.splits)

lemma promise_all_Cons_fst:
  "fst (promise_all (u # us) w) =
     (case fst (u w) of Inl e \<Rightarrow> Inl e | Inr _ \<Rightarrow> fst (promise_all us (snd (u w))))"
  by (simp split: prod.splits sum.splits)

lemma promise_all_snd: "snd (promise_all us w) = foldl (\<lambda>w u. snd (u w)) w us"
  by (induction us arbitrary: w) (simp_all add: promise_all_Cons_snd del: promise_all.simps(2))

lemma uploadBatch_snd:
  "snd (uploadBatch tgt c b m i w) =
     \<lparr>tstate = snd (submit tgt (m c b) (tstate w)), trace = trace w @ [m c b]\<rparr>"
  by (simp add: uploadBatch_def request_simps split: sum.splits)

lemma uploads_world:
  "snd (promise_all (map (\<lambda>(i, b). uploadBatch tgt c b m i) (enumerate n bs)) w) =
     \<lparr>tstate = foldl (\<lambda>s b. snd (submit tgt (m c b) s)) (tstate w) bs,
      trace = trace w @ map (m c) bs\<rparr>"
  by (induction bs arbitrary: n w)
    (simp_all add: promise_all_Cons_snd uploadBatch_snd del: promise_all.simps(2))

section \<open>The full-data and singleton phases\<close>

lemma new_requests_append [simp]: "trace w' = trace w @ xs \<Longrightarrow> new_requests w w' = xs"
  by (simp add: new_requests_def)

lemma full_unit_trace:
  "trace (snd (full_unit tgt tpl c w)) = trace w @ full_requests tpl c"
  by (simp add: full_unit_def full_requests_def Let_def uploads_world comp_def
      split: option.splits blob.splits)

lemma singleton_unit_trace:
  "trace (snd (singleton_unit tgt tpl c w)) = trace w @ singleton_requests tpl c"
  by (simp add: singleton_unit_def singleton_requests_def Let_def request_simps
      split: option.splits sum.splits)

lemma promise_all_trace:
  assumes "\<And>c w. trace (snd (unit c w)) = trace w @ rqs c"
  shows "trace (snd (promise_all (map unit cs) w)) = trace w @ concat (map rqs cs)"
  by (induction cs arbitrary: w)
    (simp_all add: promise_all_Cons_snd assms del: promise_all.simps(2))

lemma loadFullData_trace:
  "trace (snd (loadFullData tgt tpl targets w)) =
     trace w @ (case userCollections tpl targets of Inl e \<Rightarrow> [] | Inr cs \<Rightarrow> concat (map (full_requests tpl) cs))"
  by (simp add: loadFullData_def promise_all_trace [where rqs = "full_requests tpl"] full_unit_trace
      split: sum.splits)

lemma loadSingletons_trace:
  "trace (snd (loadSingletons tgt tpl targets w)) =
     trace w @ (case singletonCollections tpl targets of Inl e \<Rightarrow> [] | Inr cs \<Rightarrow> concat (map (singleton_requests tpl) cs))"
  by (simp add: loadSingletons_def promise_all_trace [where rqs = "singleton_requests tpl"] singleton_unit_trace
      split: sum.splits)

lemma map_of_without_audit:
  "map_of (without_audit source) k =
     (if k = ''user_created'' \<or> k = ''user_updated'' then None else map_of source k)"
  by (induction source) (auto simp: without_audit_def)

lemma full_requests_sound:
  assumes "rq \<in> set (full_requests tpl c)"
  shows "\<exists>batch rows. rq = UpdateItemsBatch (c_collection c) batch
           \<and> t_content tpl (c_collection c) = Some (Rows rows)
           \<and> (\<forall>payload\<in>set batch. \<exists>row\<in>set rows. payload = without_audit row)"
proof -
  from assms obtain rows where r: "t_content tpl (c_collection c) = Some (Rows rows)"
    by (cases "t_content tpl (c_collection c)"; auto simp: full_requests_def split: blob.splits)
  with assms obtain b where b: "b \<in> set (chunkArray rows BATCH_SIZE)"
    and rq: "rq = UpdateItemsBatch (c_collection c) (map without_audit b)"
    by (auto simp: full_requests_def)
  from b have "set b \<subseteq> set rows" by (simp add: chunkArray_batch)
  with r rq show ?thesis by auto
qed

text \<open>
  C6. Every request that the full-data phase adds to the trace is an update-items-batch
  of a collection whose payloads are records of that collection's content blob without
  \<open>user_created\<close> and \<open>user_updated\<close>; every request that the singleton phase adds is an
  update-singleton whose payload is the content of the singleton without these two keys.
  Stripping removes the two keys and keeps every other key with its value.
\<close>

theorem audit_fields_stripped:
  "(\<forall>rq\<in>set (new_requests w (snd (loadFullData tgt tpl targets w))).
       \<exists>c batch rows. rq = UpdateItemsBatch c batch \<and> t_content tpl c = Some (Rows rows)
         \<and> (\<forall>payload\<in>set batch. \<exists>row\<in>set rows. payload = without_audit row))
   \<and> (\<forall>rq\<in>set (new_requests w (snd (loadSingletons tgt tpl targets w))).
       \<exists>c data. rq = UpdateSingleton c (without_audit (own_properties data))
         \<and> t_content tpl c = Some data)
   \<and> map_of (without_audit source) ''user_created'' = None
   \<and> map_of (without_audit source) ''user_updated'' = None
   \<and> (k \<noteq> ''user_created'' \<and> k \<noteq> ''user_updated'' \<longrightarrow>
        map_of (without_audit source) k = map_of source k
        \<and> get_prop (without_audit source) k = get_prop source k)"
proof (intro conjI ballI)
  fix rq assume "rq \<in> set (new_requests w (snd (loadFullData tgt tpl targets w)))"
  then obtain cs c where "c \<in> set cs" "rq \<in> set (full_requests tpl c)"
    by (auto simp: loadFullData_trace split: sum.splits)
  then show "\<exists>c batch rows. rq = UpdateItemsBatch c batch \<and> t_content tpl c = Some (Rows rows)
         \<and> (\<forall>payload\<in>set batch. \<exists>row\<in>set rows. payload = without_audit row)"
    using full_requests_sound by blast
next
  fix rq assume "rq \<in> set (new_requests w (snd (loadSingletons tgt tpl targets w)))"
  then obtain cs c where "c \<in> set cs" "rq \<in> set (singleton_requests tpl c)"
    by (auto simp: loadSingletons_trace split: sum.splits)
  then show "\<exists>c data. rq = UpdateSingleton c (without_audit (own_properties data))
         \<and> t_content tpl c = Some data"
    by (cases "t_content tpl (c_collection c)") (auto simp: singleton_requests_def)
qed (simp_all add: map_of_without_audit get_prop_def)


theorem audit_fields_stripped_witness:
  "UpdateItemsBatch ''articles''
      [[(''id'', JNum 1), (''author_id'', JNum 10)], [(''id'', JNum 2), (''author_id'', JNum 10)]]
     \<in> set (new_requests ex_world
               (snd (loadFullData store_target ex_template {''articles'', ''authors'', ''site''} ex_world)))
   \<and> (\<exists>c batch rows.
         UpdateItemsBatch ''articles''
           [[(''id'', JNum 1), (''author_id'', JNum 10)], [(''id'', JNum 2), (''author_id'', JNum 10)]]
           = UpdateItemsBatch c batch
         \<and> t_content ex_template c = Some (Rows rows)
         \<and> (\<forall>payload\<in>set batch. \<exists>row\<in>set rows. payload = without_audit row))
   \<and> UpdateSingleton ''site'' [(''title'', JStr ''News'')]
     \<in> set (new_requests ex_world
               (snd (loadSingletons store_target ex_template {''articles'', ''authors'', ''site''} ex_world)))
   \<and> map_of (without_audit [(''id'', JNum 1), (''author_id'', JNum 10), (''user_created'', JStr ''u1'')])
        ''user_created'' = None
   \<and> map_of (without_audit [(''id'', JNum 1), (''author_id'', JNum 10), (''user_created'', JStr ''u1'')])
        ''author_id'' = Some (JNum 10)"
proof -
  let ?rq = "UpdateItemsBatch ''articles''
      [[(''id'', JNum 1), (''author_id'', JNum 10)], [(''id'', JNum 2), (''author_id'', JNum 10)]]"
  let ?src = "[(''id'', JNum 1), (''author_id'', JNum 10), (''user_created'', JStr ''u1'')]"
  note t = audit_fields_stripped [of ex_world store_target ex_template
      "{''articles'', ''authors'', ''site''}" ?src "''author_id''"]
  have full: "?rq \<in> set (new_requests ex_world
               (snd (loadFullData store_target ex_template {''articles'', ''authors'', ''site''} ex_world)))"
    by code_simp
  have single: "UpdateSingleton ''site'' [(''title'', JStr ''News'')]
     \<in> set (new_requests ex_world
               (snd (loadSingletons store_target ex_template {''articles'', ''authors'', ''site''} ex_world)))"
    by code_simp
  from t full have "\<exists>c batch rows. ?rq = UpdateItemsBatch c batch
         \<and> t_content ex_template c = Some (Rows rows)
         \<and> (\<forall>payload\<in>set batch. \<exists>row\<in>set rows. payload = without_audit row)"
    by blast
  moreover from t have "map_of (without_audit ?src) ''user_created'' = None"
    by blast
  moreover from t have "map_of (without_audit ?src) ''author_id'' = Some (JNum 10)"
    by simp
  ultimately show ?thesis using full single by blast
qed

section \<open>Pagination of the existing primary keys\<close>

lemma pages_from_Suc_fst:
  "fst (pages_from tgt c f page (Suc n) s) =
     fst (readItems tgt c [f] 1000 page s) #
       fst (pages_from tgt c f (Suc page) n (snd (readItems tgt c [f] 1000 page s)))"
  by (simp split: prod.splits)

lemma pages_from_length: "length (fst (pages_from tgt c f page n s)) = n"
  by (induction n arbitrary: page s) (simp_all add: pages_from_Suc_fst del: pages_from.simps(2))

lemma loop_pages:
  assumes "pages_from tgt c f page (Suc n) (tstate w) = (rs @ [r], s')"
    and "list_all full_page rs" and "\<not> full_page r"
  shows "getExistingPrimaryKeys_loop tgt c f page keys w =
     Some (case r of Inl msg \<Rightarrow> Inl (Fatal msg ''getExistingPrimaryKeys'')
                   | Inr response \<Rightarrow> Inr (keys \<union> \<Union> (set (map (page_keys f) (rs @ [r])))),
           \<lparr>tstate = s', trace = trace w @ map (ReadItems c [f] 1000) [page..<page + Suc n]\<rparr>)"
  using assms
proof (induction n arbitrary: page keys w rs)
  case 0
  then have rs: "rs = []" and r: "readItems tgt c [f] 1000 page (tstate w) = (r, s')"
    by (auto split: prod.splits)
  show ?case
  proof (cases r)
    case (Inl msg)
    with r rs show ?thesis
      by (subst getExistingPrimaryKeys_loop.simps) (simp add: request_simps catchError_def)
  next
    case (Inr response)
    with 0 r rs show ?thesis
      by (subst getExistingPrimaryKeys_loop.simps)
        (auto simp: request_simps full_page_def page_keys_def)
  qed
next
  case (Suc n)
  obtain r0 s1 where r0: "readItems tgt c [f] 1000 page (tstate w) = (r0, s1)"
    by (cases "readItems tgt c [f] 1000 page (tstate w)")
  obtain rest s2 where rest: "pages_from tgt c f (Suc page) (Suc n) s1 = (rest, s2)"
    by (cases "pages_from tgt c f (Suc page) (Suc n) s1")
  have len: "length rest = Suc n"
    using pages_from_length [of tgt c f "Suc page" "Suc n" s1] rest by simp
  from Suc.prems(1) r0 rest have eq: "rs @ [r] = r0 # rest" and s2: "s2 = s'"
    by (simp_all del: pages_from.simps(2) add: pages_from.simps(2) [of tgt c f page "Suc n"])
  from eq len obtain rs' where rs: "rs = r0 # rs'" and rest': "rest = rs' @ [r]"
    by (cases rs) auto
  from Suc.prems(2) rs have full0: "full_page r0" and fulls: "list_all full_page rs'" by simp_all
  from full0 obtain response where resp: "r0 = Inr response" and big: "1000 \<le> length response"
    by (cases r0) (auto simp: full_page_def)
  let ?w1 = "\<lparr>tstate = s1, trace = trace w @ [ReadItems c [f] 1000 page]\<rparr>"
  let ?keys1 = "keys \<union> set (map (\<lambda>item. get_prop item f) response)"
  have step: "getExistingPrimaryKeys_loop tgt c f page keys w =
      getExistingPrimaryKeys_loop tgt c f (page + 1) ?keys1 ?w1"
    using r0 resp big by (subst getExistingPrimaryKeys_loop.simps) (auto simp: request_simps)
  have "pages_from tgt c f (page + 1) (Suc n) (tstate ?w1) = (rs' @ [r], s')"
    using rest rest' s2 by simp
  from Suc.IH [OF this fulls Suc.prems(3), of ?keys1]
  show ?case
    unfolding step using rs resp
    by (simp add: page_keys_def upt_rec [of page] Un_assoc split: sum.splits)
qed

lemma loop_returns:
  assumes "\<not> full_page (last (fst (pages_from tgt c f page (Suc n) (tstate w))))"
  shows "\<exists>y. getExistingPrimaryKeys_loop tgt c f page keys w = Some y"
  using assms
proof (induction n arbitrary: page keys w)
  case 0
  obtain r0 s1 where r0: "readItems tgt c [f] 1000 page (tstate w) = (r0, s1)"
    by (cases "readItems tgt c [f] 1000 page (tstate w)")
  with 0 have "\<not> full_page r0" by simp
  with r0 loop_pages [of tgt c f page 0 w "[]" r0 s1 keys] show ?case by simp
next
  case (Suc n)
  obtain r0 s1 where r0: "readItems tgt c [f] 1000 page (tstate w) = (r0, s1)"
    by (cases "readItems tgt c [f] 1000 page (tstate w)")
  show ?case
  proof (cases "full_page r0")
    case False
    with r0 loop_pages [of tgt c f page 0 w "[]" r0 s1 keys] show ?thesis by simp
  next
    case True
    then obtain response where resp: "r0 = Inr response" and big: "1000 \<le> length response"
      by (cases r0) (auto simp: full_page_def)
    let ?w1 = "\<lparr>tstate = s1, trace = trace w @ [ReadItems c [f] 1000 page]\<rparr>"
    let ?keys1 = "keys \<union> set (map (\<lambda>item. get_prop item f) response)"
    have step: "getExistingPrimaryKeys_loop tgt c f page keys w =
        getExistingPrimaryKeys_loop tgt c f (Suc page) ?keys1 ?w1"
      using r0 resp big by (subst getExistingPrimaryKeys_loop.simps) (auto simp: request_simps)
    have ne: "fst (pages_from tgt c f (Suc page) (Suc n) s1) \<noteq> []"
      using pages_from_length [of tgt c f "Suc page" "Suc n" s1] by auto
    have "last (fst (pages_from tgt c f page (Suc (Suc n)) (tstate w))) =
          last (fst (pages_from tgt c f (Suc page) (Suc n) s1))"
      using r0 ne by (simp del: pages_from.simps(2)
          add: pages_from_Suc_fst [of tgt c f page "Suc n"])
    with Suc.prems have "\<not> full_page (last (fst (pages_from tgt c f (Suc page) (Suc n) (tstate ?w1))))"
      by simp
    from Suc.IH [OF this, of ?keys1] show ?thesis unfolding step .
  qed
qed

text \<open>
  C5. \<open>getExistingPrimaryKeys\<close> asks for the pages 1, 2, ... with limit 1000, each in the
  state that the answer to the page before left. When the first \<open>n\<close> answers are full
  pages (1000 items or more) and the next answer is not (a shorter page, an empty one,
  or a failure), it returns after exactly these \<open>n + 1\<close> requests: the primary-key values
  of all the items received, or the fatal error when the last request failed. Whenever
  some answer of the target is not a full page, it returns.
\<close>

theorem pagination_sequential_and_finite:
  "(pages_from tgt c f 1 (Suc n) (tstate w) = (rs @ [r], s') \<and> list_all full_page rs \<and> \<not> full_page r \<longrightarrow>
      getExistingPrimaryKeys tgt c f w =
        Some (pagination_result f (rs @ [r]),
              \<lparr>tstate = s', trace = trace w @ map (ReadItems c [f] 1000) [1..<n + 2]\<rparr>))
   \<and> ((\<exists>m. \<not> full_page (last (fst (pages_from tgt c f 1 (Suc m) (tstate w))))) \<longrightarrow>
      (\<exists>y. getExistingPrimaryKeys tgt c f w = Some y))"
proof (intro conjI impI)
  assume a: "pages_from tgt c f 1 (Suc n) (tstate w) = (rs @ [r], s') \<and> list_all full_page rs \<and> \<not> full_page r"
  then show "getExistingPrimaryKeys tgt c f w =
        Some (pagination_result f (rs @ [r]),
              \<lparr>tstate = s', trace = trace w @ map (ReadItems c [f] 1000) [1..<n + 2]\<rparr>)"
    using loop_pages [of tgt c f 1 n w rs r s' "{}"]
    by (simp add: getExistingPrimaryKeys_def pagination_result_def split: sum.splits)
next
  assume "\<exists>m. \<not> full_page (last (fst (pages_from tgt c f 1 (Suc m) (tstate w))))"
  then show "\<exists>y. getExistingPrimaryKeys tgt c f w = Some y"
    using loop_returns [of tgt c f 1 _ w "{}"] by (auto simp: getExistingPrimaryKeys_def)
qed

theorem pagination_sequential_and_finite_witness:
  "getExistingPrimaryKeys ex_paged_target ''articles'' ''id'' \<lparr>tstate = (), trace = []\<rparr> =
     Some (Inr {JNum 5},
           \<lparr>tstate = (),
            trace = [ReadItems ''articles'' [''id''] 1000 1, ReadItems ''articles'' [''id''] 1000 2]\<rparr>)"
proof -
  let ?w = "\<lparr>tstate = (), trace = []\<rparr> :: unit world"
  let ?full = "Inr (replicate 1000 [(''id'', JNum 5)]) :: string + item list"
  have p: "pages_from ex_paged_target ''articles'' ''id'' 1 (Suc (Suc 0)) (tstate ?w) =
      ([?full] @ [Inr []], ())"
    by (simp add: ex_paged_target_def)
  have full: "list_all full_page [?full]" by (simp add: full_page_def)
  have short: "\<not> full_page (Inr [] :: string + item list)" by (simp add: full_page_def)
  show ?thesis
    using pagination_sequential_and_finite [of ex_paged_target "''articles''" "''id''" "Suc 0" ?w
        "[?full]" "Inr []" "()"] p full short
    by (simp add: pagination_result_def page_keys_def get_prop_def)
qed

section \<open>Loading relations\<close>









lemma store_submit_ok [simp]:
  "fst (submit store_target (CreateItems c b) s) = Inr ()"
  "fst (submit store_target (UpdateItemsBatch c b) s) = Inr ()"
  "fst (submit store_target (UpdateSingleton c d) s) = Inr ()"
  "fst (submit store_target (CreateRelation r) s) = Inr ()"
  by (simp_all add: store_target_def store_submit_def)


end
